theory Spec2Isabelle
  imports Complex_Main "HOL-Library.AList" "HOL-Library.Char_ord" "HOL-Library.List_Lexorder"
begin

section \<open>Data model\<close>

text \<open>
  Amounts are Python floats. Inside the engine they are modelled as real numbers (exact
  arithmetic, every amount finite); what the constructor does on every value a field of
  an input record can have is modelled apart, below.
  A \<open>datetime\<close> is an integer count of time units, a \<open>timedelta\<close> the difference of
  two of them. Every exception the code can raise is a value of \<open>error\<close>; a function
  that can raise returns \<open>error + 'a\<close> with \<open>Inl\<close> for the exception.
\<close>

datatype error =
  ValueError | ZeroDivisionError | TypeError | AttributeError
  | UnboundLocalError | IndexError | KeyError

datatype fee_convention = Sender | Recipient | Split

text \<open>
  The dictionary a transaction is built from (\<open>txn_dict\<close>), over the type of the values
  of its amount fields. A key that may be absent from the header is an option;
  \<open>setattr\<close> copies every key onto the object. \<open>d_categ\<close> is the category the object
  ends up with: a key of the dictionary of an inferred transaction, assigned by
  \<open>Transaction.create\<close> right after construction otherwise.
\<close>

record 'a txn_dict_of =
  d_txn_ID :: string
  d_timestamp :: int
  d_amt :: "'a option"
  d_src_fee :: "'a option"
  d_tgt_fee :: "'a option"
  d_type :: "string option"
  d_categ :: string
  d_src_categ :: "string option"
  d_tgt_categ :: "string option"

text \<open>
  A \<open>Transaction\<close> object, over the type of the values of its amounts. \<open>src\<close> and
  \<open>tgt\<close> are the identifiers of the accounts the object references; \<open>fee_scaling\<close> is
  \<open>None\<close> when the division raised.
\<close>

record 'a transaction_of =
  txn_ID :: string
  timestamp :: int
  src :: string
  tgt :: string
  txn_type :: string
  categ :: string
  amt_out :: 'a
  amt_in :: 'a
  fee :: 'a
  fee_scaling :: "'a option"

text \<open>In the engine the amounts are real numbers.\<close>

type_synonym txn_dict = "real txn_dict_of"

type_synonym transaction = "real transaction_of"

text \<open>\<open>System.get_amounts\<close>: the default lambda of \<open>System.__init__\<close> when no fee
  convention was defined, else the lambda \<open>define_fee_accounting\<close> installed. Reading an
  attribute the dictionary did not supply raises \<open>AttributeError\<close>.\<close>

definition attr :: "'a option \<Rightarrow> error + 'a" where
  "attr v = (case v of None \<Rightarrow> Inl AttributeError | Some x \<Rightarrow> Inr x)"

fun get_amounts :: "fee_convention option \<Rightarrow> txn_dict \<Rightarrow> error + (real \<times> real \<times> real)" where
  "get_amounts None d =
     (case attr (d_amt d) of Inl e \<Rightarrow> Inl e | Inr a \<Rightarrow> Inr (a, a, 0))"
| "get_amounts (Some Sender) d =
     (case attr (d_amt d) of Inl e \<Rightarrow> Inl e | Inr a \<Rightarrow>
      (case attr (d_src_fee d) of Inl e \<Rightarrow> Inl e | Inr sf \<Rightarrow> Inr (a + sf, a, sf)))"
| "get_amounts (Some Recipient) d =
     (case attr (d_amt d) of Inl e \<Rightarrow> Inl e | Inr a \<Rightarrow>
      (case attr (d_tgt_fee d) of Inl e \<Rightarrow> Inl e | Inr tf \<Rightarrow> Inr (a, a - tf, tf)))"
| "get_amounts (Some Split) d =
     (case attr (d_amt d) of Inl e \<Rightarrow> Inl e | Inr a \<Rightarrow>
      (case attr (d_src_fee d) of Inl e \<Rightarrow> Inl e | Inr sf \<Rightarrow>
      (case attr (d_tgt_fee d) of Inl e \<Rightarrow> Inl e | Inr tf \<Rightarrow> Inr (a + sf, a - tf, sf + tf))))"

text \<open>\<open>"-".join([self.src_categ, self.tgt_categ])\<close>, the fallback for a missing type.\<close>

definition default_type :: "'a txn_dict_of \<Rightarrow> error + string" where
  "default_type d =
     (case d_type d of
        Some t \<Rightarrow> Inr t
      | None \<Rightarrow>
          (case attr (d_src_categ d) of Inl e \<Rightarrow> Inl e | Inr sc \<Rightarrow>
          (case attr (d_tgt_categ d) of Inl e \<Rightarrow> Inl e | Inr tc \<Rightarrow> Inr (sc @ ''-'' @ tc))))"

text \<open>\<open>Transaction.__init__(src, tgt, txn_dict)\<close>.\<close>

definition Transaction_init ::
  "fee_convention option \<Rightarrow> string \<Rightarrow> string \<Rightarrow> txn_dict \<Rightarrow> error + transaction" where
  "Transaction_init conv s t d =
     (case get_amounts conv d of
        Inl e \<Rightarrow> Inl e
      | Inr (out, inn, f) \<Rightarrow>
          if out < inn then Inl ValueError
          else
            (case default_type d of
               Inl e \<Rightarrow> Inl e
             | Inr ty \<Rightarrow>
                 Inr \<lparr> txn_ID = d_txn_ID d, timestamp = d_timestamp d, src = s, tgt = t,
                       txn_type = ty, categ = d_categ d, amt_out = out, amt_in = inn, fee = f,
                       fee_scaling = (if inn = 0 then None else Some (f / inn)) \<rparr>))"

section \<open>The constructor on the values of an input record\<close>

text \<open>
  \<open>Transaction.create\<close> passes each of \<open>amt\<close>, \<open>src_fee\<close> and \<open>tgt_fee\<close> through
  \<open>float()\<close> and keeps the value it had where that raises. \<open>float()\<close> returns a finite
  number, one of the two infinities (\<open>'inf'\<close>, \<open>'-inf'\<close>) or not-a-number (\<open>'nan'\<close>).
  Sums and quotients of finite numbers are taken exact; with an infinity or a NaN they
  are those of IEEE arithmetic, and every comparison with a NaN is false.
\<close>

datatype pyfloat = Finite real | PInf | NInf | NaN

fun float_add :: "pyfloat \<Rightarrow> pyfloat \<Rightarrow> pyfloat" where
  "float_add NaN y = NaN"
| "float_add x NaN = NaN"
| "float_add (Finite a) (Finite b) = Finite (a + b)"
| "float_add PInf NInf = NaN"
| "float_add NInf PInf = NaN"
| "float_add PInf y = PInf"
| "float_add x PInf = PInf"
| "float_add NInf y = NInf"
| "float_add x NInf = NInf"

fun float_neg :: "pyfloat \<Rightarrow> pyfloat" where
  "float_neg (Finite a) = Finite (- a)"
| "float_neg PInf = NInf"
| "float_neg NInf = PInf"
| "float_neg NaN = NaN"

definition float_sub :: "pyfloat \<Rightarrow> pyfloat \<Rightarrow> pyfloat" where
  "float_sub x y = float_add x (float_neg y)"

fun float_less :: "pyfloat \<Rightarrow> pyfloat \<Rightarrow> bool" where
  "float_less NaN y = False"
| "float_less x NaN = False"
| "float_less (Finite a) (Finite b) = (a < b)"
| "float_less x NInf = False"
| "float_less PInf y = False"
| "float_less NInf y = True"
| "float_less x PInf = True"

definition float_le :: "pyfloat \<Rightarrow> pyfloat \<Rightarrow> bool" where
  "float_le x y = (float_less x y \<or> (x = y \<and> x \<noteq> NaN))"

text \<open>The quotient by a divisor that is not zero; on a zero divisor Python raises, and
  the caller below tests for it first.\<close>

fun float_div :: "pyfloat \<Rightarrow> pyfloat \<Rightarrow> pyfloat" where
  "float_div NaN y = NaN"
| "float_div x NaN = NaN"
| "float_div (Finite a) (Finite b) = Finite (a / b)"
| "float_div (Finite a) y = Finite 0"
| "float_div PInf (Finite b) = (if 0 < b then PInf else NInf)"
| "float_div NInf (Finite b) = (if 0 < b then NInf else PInf)"
| "float_div x y = NaN"

text \<open>
  The value of a field when the constructor runs: a float; the string of the record,
  where \<open>float()\<close> raised on it; or \<open>None\<close>, which the reader puts for a field the row
  is too short for. On strings \<open>+\<close> concatenates and \<open><\<close>, \<open><=\<close> compare
  lexicographically; every other use of a string or of \<open>None\<close> in these operations, and every
  mix of a string with a float, raises \<open>TypeError\<close>.
\<close>

datatype field = Float pyfloat | Str string | PyNone

fun field_add :: "field \<Rightarrow> field \<Rightarrow> error + field" where
  "field_add (Float a) (Float b) = Inr (Float (float_add a b))"
| "field_add (Str a) (Str b) = Inr (Str (a @ b))"
| "field_add x y = Inl TypeError"

fun field_sub :: "field \<Rightarrow> field \<Rightarrow> error + field" where
  "field_sub (Float a) (Float b) = Inr (Float (float_sub a b))"
| "field_sub x y = Inl TypeError"

fun field_less :: "field \<Rightarrow> field \<Rightarrow> error + bool" where
  "field_less (Float a) (Float b) = Inr (float_less a b)"
| "field_less (Str a) (Str b) = Inr (a < b)"
| "field_less x y = Inl TypeError"

fun field_le :: "field \<Rightarrow> field \<Rightarrow> error + bool" where
  "field_le (Float a) (Float b) = Inr (float_le a b)"
| "field_le (Str a) (Str b) = Inr (a \<le> b)"
| "field_le x y = Inl TypeError"

fun field_div :: "field \<Rightarrow> field \<Rightarrow> error + field" where
  "field_div (Float a) (Float b) =
     (if b = Finite 0 then Inl ZeroDivisionError else Inr (Float (float_div a b)))"
| "field_div x y = Inl TypeError"

text \<open>\<open>System.get_amounts\<close> on such values; the \<open>0\<close> of the default lambda is the
  number zero.\<close>

fun get_amounts_values ::
  "fee_convention option \<Rightarrow> field txn_dict_of \<Rightarrow> error + (field \<times> field \<times> field)" where
  "get_amounts_values None d =
     (case attr (d_amt d) of Inl e \<Rightarrow> Inl e | Inr a \<Rightarrow> Inr (a, a, Float (Finite 0)))"
| "get_amounts_values (Some Sender) d =
     (case attr (d_amt d) of Inl e \<Rightarrow> Inl e | Inr a \<Rightarrow>
      (case attr (d_src_fee d) of Inl e \<Rightarrow> Inl e | Inr sf \<Rightarrow>
      (case field_add a sf of Inl e \<Rightarrow> Inl e | Inr out \<Rightarrow> Inr (out, a, sf))))"
| "get_amounts_values (Some Recipient) d =
     (case attr (d_amt d) of Inl e \<Rightarrow> Inl e | Inr a \<Rightarrow>
      (case attr (d_tgt_fee d) of Inl e \<Rightarrow> Inl e | Inr tf \<Rightarrow>
      (case field_sub a tf of Inl e \<Rightarrow> Inl e | Inr inn \<Rightarrow> Inr (a, inn, tf))))"
| "get_amounts_values (Some Split) d =
     (case attr (d_amt d) of Inl e \<Rightarrow> Inl e | Inr a \<Rightarrow>
      (case attr (d_src_fee d) of Inl e \<Rightarrow> Inl e | Inr sf \<Rightarrow>
      (case field_add a sf of Inl e \<Rightarrow> Inl e | Inr out \<Rightarrow>
      (case attr (d_tgt_fee d) of Inl e \<Rightarrow> Inl e | Inr tf \<Rightarrow>
      (case field_sub a tf of Inl e \<Rightarrow> Inl e | Inr inn \<Rightarrow>
      (case field_add sf tf of Inl e \<Rightarrow> Inl e | Inr f \<Rightarrow> Inr (out, inn, f)))))))"

text \<open>\<open>Transaction.__init__(src, tgt, txn_dict)\<close> on such values. An exception of the
  comparison leaves the constructor; any exception of the division is caught and gives
  a \<open>fee_scaling\<close> of \<open>None\<close>.\<close>

definition Transaction_init_values ::
  "fee_convention option \<Rightarrow> string \<Rightarrow> string \<Rightarrow> field txn_dict_of
     \<Rightarrow> error + field transaction_of" where
  "Transaction_init_values conv s t d =
     (case get_amounts_values conv d of
        Inl e \<Rightarrow> Inl e
      | Inr (out, inn, f) \<Rightarrow>
          (case field_less out inn of
             Inl e \<Rightarrow> Inl e
           | Inr True \<Rightarrow> Inl ValueError
           | Inr False \<Rightarrow>
               (case default_type d of
                  Inl e \<Rightarrow> Inl e
                | Inr ty \<Rightarrow>
                    Inr \<lparr> txn_ID = d_txn_ID d, timestamp = d_timestamp d, src = s, tgt = t,
                          txn_type = ty, categ = d_categ d, amt_out = out, amt_in = inn,
                          fee = f,
                          fee_scaling =
                            (case field_div f inn of Inl e \<Rightarrow> None | Inr k \<Rightarrow> Some k) \<rparr>)))"

text \<open>A dictionary and a transaction of the engine, read as values: every amount is a
  finite float.\<close>

definition finite_field :: "real \<Rightarrow> field" where
  "finite_field r = Float (Finite r)"

definition dict_values :: "txn_dict \<Rightarrow> field txn_dict_of" where
  "dict_values d =
     \<lparr> d_txn_ID = d_txn_ID d, d_timestamp = d_timestamp d,
       d_amt = map_option finite_field (d_amt d),
       d_src_fee = map_option finite_field (d_src_fee d),
       d_tgt_fee = map_option finite_field (d_tgt_fee d),
       d_type = d_type d, d_categ = d_categ d,
       d_src_categ = d_src_categ d, d_tgt_categ = d_tgt_categ d \<rparr>"

definition transaction_values :: "transaction \<Rightarrow> field transaction_of" where
  "transaction_values x =
     \<lparr> txn_ID = txn_ID x, timestamp = timestamp x, src = src x, tgt = tgt x,
       txn_type = txn_type x, categ = categ x,
       amt_out = finite_field (amt_out x), amt_in = finite_field (amt_in x),
       fee = finite_field (fee x), fee_scaling = map_option finite_field (fee_scaling x) \<rparr>"

section \<open>Branches and flows\<close>

text \<open>
  A \<open>Branch\<close> references its parent branch (\<open>None\<close> for a root branch), its
  transaction and the amount of it that the branch represents.
\<close>

datatype branch = Branch (prev: "branch option") (txn: transaction) (amt: real)

text \<open>\<open>Branch.decrement\<close> and \<open>Branch.depreciate\<close>; the guards of the source only
  \<open>pass\<close>.\<close>

definition decrement :: "branch \<Rightarrow> real \<Rightarrow> branch" where
  "decrement b a = Branch (prev b) (txn b) (amt b - a)"

definition depreciate :: "branch \<Rightarrow> real \<Rightarrow> branch" where
  "depreciate b factor = Branch (prev b) (txn b) (factor * amt b)"

text \<open>A \<open>Flow\<close>. The fields carry the names of \<open>Flow.header\<close>; \<open>flow_timestamp\<close> is the
  root transaction's timestamp (its formatting with \<open>strftime\<close> is not modelled).\<close>

record flow =
  flow_timestamp :: int
  flow_txn_IDs :: "string list"
  flow_txn_types :: "string list"
  beg_categ :: string
  end_categ :: string
  flow_acct_IDs :: "string list"
  flow_amt :: real
  flow_rev_fracs :: "real list"
  flow_frac_root :: real
  flow_duration :: int
  flow_durations :: "int list"
  flow_length :: int
  flow_length_wrev :: real

text \<open>\<open>Flow.__init__(branch, amt, fee)\<close>. The two divisions that are always evaluated
  raise \<open>ZeroDivisionError\<close> on a zero divisor; the third is in the \<open>'transfer'\<close> arm only
  and has the divisor of the second.\<close>

definition Flow_init :: "branch \<Rightarrow> real \<Rightarrow> real \<Rightarrow> error + flow" where
  "Flow_init b a f =
     (if a + f = 0 then Inl ZeroDivisionError
      else if amt_out (txn b) = 0 then Inl ZeroDivisionError
      else Inr \<lparr> flow_timestamp = timestamp (txn b),
                 flow_txn_IDs = [txn_ID (txn b)],
                 flow_txn_types = [txn_type (txn b)],
                 beg_categ = categ (txn b),
                 end_categ = categ (txn b),
                 flow_acct_IDs = [src (txn b), tgt (txn b)],
                 flow_amt = a + f,
                 flow_rev_fracs = [f / (a + f)],
                 flow_frac_root = (a + f) / amt_out (txn b),
                 flow_duration = 0,
                 flow_durations = [],
                 flow_length = (if categ (txn b) = ''transfer'' then 1 else 0),
                 flow_length_wrev =
                   (if categ (txn b) = ''transfer'' then amt_in (txn b) / amt_out (txn b) else 0) \<rparr>)"

text \<open>\<open>Flow.extend(branch, amt)\<close>. \<open>amt/self.amt\<close> raises on a flow of amount zero,
  \<open>branch.prev.txn\<close> on a root branch. A flow whose \<open>extend\<close> raised is never returned,
  so the appends made before the exception are not kept.\<close>

definition Flow_extend :: "flow \<Rightarrow> branch \<Rightarrow> real \<Rightarrow> error + flow" where
  "Flow_extend fl b a =
     (if flow_amt fl = 0 then Inl ZeroDivisionError
      else
        (case prev b of
           None \<Rightarrow> Inl AttributeError
         | Some p \<Rightarrow>
             let branch_duration = timestamp (txn b) - timestamp (txn p) in
             Inr (fl \<lparr> flow_txn_IDs := flow_txn_IDs fl @ [txn_ID (txn b)],
                       flow_acct_IDs := flow_acct_IDs fl @ [tgt (txn b)],
                       flow_txn_types := flow_txn_types fl @ [txn_type (txn b)],
                       end_categ := categ (txn b),
                       flow_rev_fracs := flow_rev_fracs fl @ [1 - a / flow_amt fl],
                       flow_duration := flow_duration fl + branch_duration,
                       flow_durations := flow_durations fl @ [branch_duration],
                       flow_length :=
                         flow_length fl + (if categ (txn b) = ''transfer'' then 1 else 0),
                       flow_length_wrev :=
                         flow_length_wrev fl
                           + (if categ (txn b) = ''transfer'' then a / flow_amt fl else 0) \<rparr>)))"

text \<open>
  \<open>fee if fee else amt*self.txn.fee_scaling\<close>: the argument \<open>fee\<close> is \<open>None\<close> when the
  caller omitted it. Python's truth test takes \<open>None\<close> and \<open>0\<close> (\<open>0.0\<close>) for false;
  \<open>amt * None\<close> raises \<open>TypeError\<close>.
\<close>

definition fee_or_scaled :: "branch \<Rightarrow> real \<Rightarrow> real option \<Rightarrow> error + real" where
  "fee_or_scaled b a f =
     (let scaled = (case fee_scaling (txn b) of None \<Rightarrow> Inl TypeError | Some k \<Rightarrow> Inr (a * k))
      in case f of
           None \<Rightarrow> scaled
         | Some x \<Rightarrow> if x = 0 then scaled else Inr x)"

text \<open>\<open>Branch.follow_back(amt, fee=None)\<close>. A \<open>Branch\<close> object is always true, so
  \<open>if self.prev\<close> tests for \<open>None\<close>.\<close>

fun follow_back :: "branch \<Rightarrow> real \<Rightarrow> real option \<Rightarrow> error + flow" where
  "follow_back (Branch p t x) a f =
     (case fee_or_scaled (Branch p t x) a f of
        Inl e \<Rightarrow> Inl e
      | Inr f' \<Rightarrow>
          (case p of
             Some pb \<Rightarrow>
               (case follow_back pb (a + f') None of
                  Inl e \<Rightarrow> Inl e
                | Inr fl \<Rightarrow> Flow_extend fl (Branch p t x) a)
           | None \<Rightarrow> Flow_init (Branch p t x) a f'))"

text \<open>\<open>Branch.new_root\<close> and \<open>Branch.new_leaves\<close>; the list comprehensions stop at the
  first call that raises. With \<open>skip_leaf\<close> the parents of the branches that have one
  are followed back, each for its own amount.\<close>

definition new_root :: "transaction \<Rightarrow> branch list" where
  "new_root t = [Branch None t (amt_in t)]"

fun collect :: "('a \<Rightarrow> error + 'b) \<Rightarrow> 'a list \<Rightarrow> error + 'b list" where
  "collect g [] = Inr []"
| "collect g (x # xs) =
     (case g x of
        Inl e \<Rightarrow> Inl e
      | Inr y \<Rightarrow> (case collect g xs of Inl e \<Rightarrow> Inl e | Inr ys \<Rightarrow> Inr (y # ys)))"

definition new_leaves :: "branch list \<Rightarrow> bool \<Rightarrow> error + flow list" where
  "new_leaves new_branches skip_leaf =
     (if skip_leaf
      then collect (\<lambda>p. follow_back p (amt p) None) (List.map_filter prev new_branches)
      else collect (\<lambda>b. follow_back b (amt b) None) new_branches)"

text \<open>The flows the code can produce: one seeded by \<open>Flow.__init__\<close>, or a produced one
  after a further \<open>extend\<close>.\<close>

inductive flow_produced :: "flow \<Rightarrow> bool" where
  seeded: "Flow_init b a f = Inr fl \<Longrightarrow> flow_produced fl"
| extended: "flow_produced fl \<Longrightarrow> Flow_extend fl b a = Inr fl' \<Longrightarrow> flow_produced fl'"

section \<open>Trackers\<close>

text \<open>
  The class attributes \<open>define_tracker\<close> sets on the tracker class it returns:
  the heuristic, the time cutoff (\<open>None\<close> when not given), the resolution limit and
  whether missing balance is inferred.
\<close>

datatype heuristic = No_tracking | Greedy | Well_mixed

record tracker_class =
  tracker_type :: heuristic
  time_cutoff :: "int option"
  resolution_limit :: real
  infer :: bool

text \<open>A tracker is the list of the branches of one account, oldest first.\<close>

definition tracked_sum :: "branch list \<Rightarrow> real" where
  "tracked_sum bs = sum_list (map amt bs)"

definition add_branches :: "branch list \<Rightarrow> branch list \<Rightarrow> branch list" where
  "add_branches trk branches = trk @ branches"

text \<open>
  What a call of \<open>extend_branches\<close> hands back as \<open>new_flows\<close>: a list of flows, or,
  from one arm of the base class, a bare \<open>Flow\<close> object. \<open>list + new_flows\<close> and
  \<open>yield from new_flows\<close> both raise \<open>TypeError\<close> on a bare \<open>Flow\<close>.
\<close>

datatype flows = Flow_list "flow list" | Flow_object flow

definition list_plus :: "flow list \<Rightarrow> flows \<Rightarrow> error + flow list" where
  "list_plus xs v = (case v of Flow_list ys \<Rightarrow> Inr (xs @ ys) | Flow_object f \<Rightarrow> Inl TypeError)"

definition yield_from :: "flows \<Rightarrow> error + flow list" where
  "yield_from v = (case v of Flow_list ys \<Rightarrow> Inr ys | Flow_object f \<Rightarrow> Inl TypeError)"

subsection \<open>No tracking\<close>

text \<open>\<open>Tracker.extend_branches\<close>. When \<open>amt_out\<close> is not above the resolution limit
  neither local is bound and the \<open>return\<close> raises \<open>UnboundLocalError\<close>. The tracker
  itself is not changed.\<close>

definition Tracker_extend_branches ::
  "real \<Rightarrow> transaction \<Rightarrow> error + (branch list \<times> flows)" where
  "Tracker_extend_branches res this_txn =
     (if amt_out this_txn > res then
        (let new_branch = Branch None this_txn (amt_in this_txn) in
         if amt_in this_txn > res then Inr ([new_branch], Flow_list [])
         else
           (case follow_back new_branch (amt new_branch)
                   (Some (amt_out this_txn - amt_in this_txn)) of
              Inl e \<Rightarrow> Inl e
            | Inr fl \<Rightarrow> Inr ([], Flow_object fl)))
      else Inl UnboundLocalError)"

subsection \<open>Greedy (last in, first out)\<close>

text \<open>
  One pass of the body of \<open>while amt > self.resolution_limit\<close>, on the tracker, the
  amount left to remove and the branches collected so far. \<open>self[-1]\<close> raises
  \<open>IndexError\<close> on an empty tracker.
\<close>

definition greedy_step ::
  "real \<Rightarrow> branch list \<times> real \<times> branch list \<Rightarrow> error + (branch list \<times> real \<times> branch list)" where
  "greedy_step res s =
     (case s of (trk, a, branches) \<Rightarrow>
        if trk = [] then Inl IndexError
        else
          (let branch = last trk in
           if amt branch < a + res
           then Inr (butlast trk, a - amt branch, branches @ [branch])
           else Inr (butlast trk @ [decrement branch a], 0,
                     branches @ [Branch (prev branch) (txn branch) a])))"

text \<open>The loop itself. It need not end (a negative resolution limit keeps \<open>0 > limit\<close>
  true after a split), so not returning is the value \<open>None\<close>. An exception leaves the
  tracker as the passes before it made it.\<close>

partial_function (option) greedy_loop ::
  "real \<Rightarrow> branch list \<times> real \<times> branch list \<Rightarrow> (branch list \<times> (error + branch list)) option" where
  "greedy_loop res s =
     (if fst (snd s) > res then
        (case greedy_step res s of
           Inl e \<Rightarrow> Some (fst s, Inl e)
         | Inr s' \<Rightarrow> greedy_loop res s')
      else Some (fst s, Inr (snd (snd s))))"

declare greedy_loop.simps [code]

text \<open>\<open>for branch in reversed(branches)\<close>: each collected branch is extended by the
  transaction, or followed back when what continues is within the resolution limit.\<close>

fun greedy_extend ::
  "real \<Rightarrow> real \<Rightarrow> transaction \<Rightarrow> branch list \<Rightarrow> branch list \<times> flow list
     \<Rightarrow> error + (branch list \<times> flow list)" where
  "greedy_extend res continues this_txn [] acc = Inr acc"
| "greedy_extend res continues this_txn (branch # rest) (new_stack, new_flows) =
     (let new_branch = Branch (Some branch) this_txn (amt branch * continues) in
      if amt new_branch > res
      then greedy_extend res continues this_txn rest (new_stack @ [new_branch], new_flows)
      else
        (case follow_back new_branch (amt new_branch) (Some (amt branch - amt new_branch)) of
           Inl e \<Rightarrow> Inl e
         | Inr fl \<Rightarrow> greedy_extend res continues this_txn rest (new_stack, new_flows @ [fl])))"

text \<open>The untracked remainder: a new root branch, or a flow for what went to the fee,
  or nothing. \<open>tracked\<close> is the sum of the tracker's amounts before the loop.\<close>

definition greedy_untracked ::
  "real \<Rightarrow> real \<Rightarrow> real \<Rightarrow> transaction \<Rightarrow> branch list \<times> flow list
     \<Rightarrow> error + (branch list \<times> flow list)" where
  "greedy_untracked res continues tracked this_txn acc =
     (case acc of (new_stack, new_flows) \<Rightarrow>
        (let amt_untracked = amt_in this_txn - tracked_sum new_stack in
         if amt_untracked > res
         then Inr (new_stack @ [Branch None this_txn amt_untracked], new_flows)
         else
           (let tot_untracked = amt_out this_txn - tracked in
            if tot_untracked > res then
              (let new_branch = Branch None this_txn (tot_untracked * continues) in
               case follow_back new_branch (amt new_branch)
                      (Some (tot_untracked - amt new_branch)) of
                 Inl e \<Rightarrow> Inl e
               | Inr fl \<Rightarrow> Inr (new_stack, new_flows @ [fl]))
            else Inr (new_stack, new_flows))))"

text \<open>\<open>Greedy_tracker.extend_branches\<close>: the tracker after the call, and what the call
  returned or raised. \<open>amt_in/amt_out\<close> is evaluated after the loop.\<close>

definition Greedy_extend_branches ::
  "real \<Rightarrow> branch list \<Rightarrow> transaction
     \<Rightarrow> (branch list \<times> (error + (branch list \<times> flow list))) option" where
  "Greedy_extend_branches res trk this_txn =
     (let tracked = tracked_sum trk in
      case greedy_loop res (trk, min (amt_out this_txn) tracked, []) of
        None \<Rightarrow> None
      | Some (trk', Inl e) \<Rightarrow> Some (trk', Inl e)
      | Some (trk', Inr branches) \<Rightarrow>
          if amt_out this_txn = 0 then Some (trk', Inl ZeroDivisionError)
          else
            (let continues = amt_in this_txn / amt_out this_txn in
             case greedy_extend res continues this_txn (rev branches) ([], []) of
               Inl e \<Rightarrow> Some (trk', Inl e)
             | Inr acc \<Rightarrow> Some (trk', greedy_untracked res continues tracked this_txn acc)))"

subsection \<open>Iterating a list that the loop body changes\<close>

text \<open>
  \<open>Branch\<close> defines no \<open>__eq__\<close>, so \<open>self.remove(branch)\<close> compares by identity: it
  deletes the first element that is the object \<open>branch\<close>. A tracker never holds one
  object twice (every branch added to it is newly constructed), so during one call the
  objects of a tracker are given their positions at entry as identities (\<open>objects\<close>), and
  a tracker in a loop is a list of identities with the objects' current states. The
  branch removed is always in the list, so \<open>remove\<close> does not raise. A \<open>for\<close> over a
  list keeps an index: each pass reads the element at the index, if there is one, and
  moves the index on by one, whatever the body did to the list.
\<close>

definition objects :: "branch list \<Rightarrow> (nat \<times> branch) list" where
  "objects trk = zip [0..<length trk] trk"

fun remove_obj :: "nat \<Rightarrow> (nat \<times> branch) list \<Rightarrow> (nat \<times> branch) list" where
  "remove_obj k [] = []"
| "remove_obj k (x # xs) = (if fst x = k then xs else x # remove_obj k xs)"

subsection \<open>Well mixed\<close>

text \<open>The first \<open>for branch in self\<close>: every branch whose share of the transaction is
  above the resolution limit is extended, or followed back when what arrives is not. A
  new branch is kept with the identity of its parent object.\<close>

fun well_mixed_extend ::
  "real \<Rightarrow> real \<Rightarrow> real \<Rightarrow> transaction \<Rightarrow> (nat \<times> branch) list
     \<Rightarrow> (nat option \<times> branch) list \<times> flow list
     \<Rightarrow> error + ((nat option \<times> branch) list \<times> flow list)" where
  "well_mixed_extend res track_factor split_factor this_txn [] acc = Inr acc"
| "well_mixed_extend res track_factor split_factor this_txn ((k, branch) # rest)
       (new_pool, new_flows) =
     (if track_factor * amt branch > res then
        (let new_branch = Branch (Some branch) this_txn (split_factor * amt branch) in
         if amt new_branch > res
         then well_mixed_extend res track_factor split_factor this_txn rest
                (new_pool @ [(Some k, new_branch)], new_flows)
         else
           (case follow_back new_branch (amt new_branch)
                   (Some (track_factor * amt branch - amt new_branch)) of
              Inl e \<Rightarrow> Inl e
            | Inr fl \<Rightarrow>
                well_mixed_extend res track_factor split_factor this_txn rest
                  (new_pool, new_flows @ [fl])))
      else well_mixed_extend res track_factor split_factor this_txn rest (new_pool, new_flows))"

text \<open>The untracked remainder. \<open>amt_in/amt_out\<close> is evaluated only in the arm that
  follows back what went to the fee.\<close>

definition well_mixed_untracked ::
  "real \<Rightarrow> real \<Rightarrow> transaction \<Rightarrow> (nat option \<times> branch) list \<times> flow list
     \<Rightarrow> error + ((nat option \<times> branch) list \<times> flow list)" where
  "well_mixed_untracked res tracked this_txn acc =
     (case acc of (new_pool, new_flows) \<Rightarrow>
        (let amt_untracked = amt_in this_txn - tracked_sum (map snd new_pool) in
         if amt_untracked > res
         then Inr (new_pool @ [(None, Branch None this_txn amt_untracked)], new_flows)
         else
           (let tot_untracked = amt_out this_txn - tracked in
            if tot_untracked > res then
              (if amt_out this_txn = 0 then Inl ZeroDivisionError
               else
                 (let new_branch =
                        Branch None this_txn
                          (tot_untracked * (amt_in this_txn / amt_out this_txn)) in
                  case follow_back new_branch (amt new_branch)
                         (Some (tot_untracked - amt new_branch)) of
                    Inl e \<Rightarrow> Inl e
                  | Inr fl \<Rightarrow> Inr (new_pool, new_flows @ [fl])))
            else Inr (new_pool, new_flows))))"

text \<open>The last \<open>for branch in self\<close>: a branch whose remainder is below the resolution
  limit is removed from the list the loop is iterating, any other is depreciated in
  place.\<close>

function well_mixed_shrink ::
  "real \<Rightarrow> real \<Rightarrow> nat \<Rightarrow> (nat \<times> branch) list \<Rightarrow> (nat \<times> branch) list" where
  "well_mixed_shrink res stay_factor i objs =
     (if i < length objs then
        (if stay_factor * amt (snd (objs ! i)) < res
         then well_mixed_shrink res stay_factor (i + 1) (remove_obj (fst (objs ! i)) objs)
         else well_mixed_shrink res stay_factor (i + 1)
                (objs[i := (fst (objs ! i), depreciate (snd (objs ! i)) stay_factor)]))
      else objs)"
  by pat_completeness auto
termination
proof (relation "measure (\<lambda>(res, stay_factor, i, objs). length objs - i)")
  show "wf (measure (\<lambda>(res, stay_factor, i, objs). length objs - i))"
    by simp
next
  fix res stay_factor :: real and i :: nat and objs :: "(nat \<times> branch) list"
  assume "i < length objs"
  moreover have "length (remove_obj k xs) \<le> length xs" for k and xs :: "(nat \<times> branch) list"
    by (induction xs) auto
  then have "length (remove_obj (fst (objs ! i)) objs) \<le> length objs" .
  ultimately show
    "((res, stay_factor, i + 1, remove_obj (fst (objs ! i)) objs), (res, stay_factor, i, objs))
       \<in> measure (\<lambda>(res, stay_factor, i, objs). length objs - i)"
    by simp
next
  fix res stay_factor :: real and i :: nat and objs :: "(nat \<times> branch) list"
  assume "i < length objs"
  then show
    "((res, stay_factor, i + 1,
        objs[i := (fst (objs ! i), depreciate (snd (objs ! i)) stay_factor)]),
      (res, stay_factor, i, objs))
       \<in> measure (\<lambda>(res, stay_factor, i, objs). length objs - i)"
    by simp
qed

text \<open>A new branch references its parent object, not a copy: after the last loop the
  parent has the amount the loop left it with.\<close>

definition parent_now :: "(nat \<times> branch) list \<Rightarrow> nat option \<times> branch \<Rightarrow> branch" where
  "parent_now objs c =
     (case fst c of
        None \<Rightarrow> snd c
      | Some k \<Rightarrow>
          (case map_of objs k of
             None \<Rightarrow> snd c
           | Some p \<Rightarrow> Branch (Some p) (txn (snd c)) (amt (snd c))))"

text \<open>\<open>Well_mixed_tracker.extend_branches\<close>, for an account of balance \<open>balance\<close>: the
  tracker after the call, and what the call returned or raised. The three divisions by
  the balance come first.\<close>

definition Well_mixed_extend_branches ::
  "real \<Rightarrow> real \<Rightarrow> branch list \<Rightarrow> transaction
     \<Rightarrow> branch list \<times> (error + (branch list \<times> flow list))" where
  "Well_mixed_extend_branches res balance trk this_txn =
     (if balance = 0 then (trk, Inl ZeroDivisionError)
      else
        (let track_factor = amt_out this_txn / balance;
             split_factor = amt_in this_txn / balance;
             stay_factor = (balance - amt_out this_txn) / balance
         in
           case well_mixed_extend res track_factor split_factor this_txn (objects trk) ([], []) of
             Inl e \<Rightarrow> (trk, Inl e)
           | Inr acc \<Rightarrow>
               (case well_mixed_untracked res (tracked_sum trk) this_txn acc of
                  Inl e \<Rightarrow> (trk, Inl e)
                | Inr (new_pool, new_flows) \<Rightarrow>
                    (let objs = well_mixed_shrink res stay_factor 0 (objects trk) in
                     (map snd objs, Inr (map (parent_now objs) new_pool, new_flows))))))"

subsection \<open>Operations of every tracker\<close>

text \<open>The loop of \<open>stop_tracking(timestamp)\<close>: a branch older than the cutoff is
  followed back and removed from the list the loop is iterating. Comparing a
  \<open>timedelta\<close> with a cutoff of \<open>None\<close> raises \<open>TypeError\<close>.\<close>

function stop_tracking_loop ::
  "int option \<Rightarrow> int \<Rightarrow> nat \<Rightarrow> (nat \<times> branch) list \<Rightarrow> flow list
     \<Rightarrow> (nat \<times> branch) list \<times> (error + flow list)" where
  "stop_tracking_loop cutoff ts i objs flows =
     (if i < length objs then
        (case cutoff of
           None \<Rightarrow> (objs, Inl TypeError)
         | Some c \<Rightarrow>
             if ts - timestamp (txn (snd (objs ! i))) > c then
               (case follow_back (snd (objs ! i)) (amt (snd (objs ! i))) None of
                  Inl e \<Rightarrow> (objs, Inl e)
                | Inr fl \<Rightarrow>
                    stop_tracking_loop cutoff ts (i + 1) (remove_obj (fst (objs ! i)) objs)
                      (flows @ [fl]))
             else stop_tracking_loop cutoff ts (i + 1) objs flows)
      else (objs, Inr flows))"
  by pat_completeness auto
termination
proof (relation "measure (\<lambda>(cutoff, ts, i, objs, flows). length objs - i)")
  show "wf (measure (\<lambda>(cutoff, ts, i, objs, flows). length objs - i))"
    by simp
next
  fix cutoff :: "int option" and ts :: int and i :: nat and objs :: "(nat \<times> branch) list"
    and flows :: "flow list" and fl :: flow
  assume "i < length objs"
  moreover have "length (remove_obj k xs) \<le> length xs" for k and xs :: "(nat \<times> branch) list"
    by (induction xs) auto
  then have "length (remove_obj (fst (objs ! i)) objs) \<le> length objs" .
  ultimately show
    "((cutoff, ts, i + 1, remove_obj (fst (objs ! i)) objs, flows @ [fl]),
      (cutoff, ts, i, objs, flows))
       \<in> measure (\<lambda>(cutoff, ts, i, objs, flows). length objs - i)"
    by simp
next
  fix cutoff :: "int option" and ts :: int and i :: nat and objs :: "(nat \<times> branch) list"
    and flows :: "flow list"
  assume "i < length objs"
  then show
    "((cutoff, ts, i + 1, objs, flows), (cutoff, ts, i, objs, flows))
       \<in> measure (\<lambda>(cutoff, ts, i, objs, flows). length objs - i)"
    by simp
qed

text \<open>\<open>Tracker.stop_tracking(timestamp=None)\<close>: the tracker after the call and the
  flows returned. A \<open>datetime\<close> is always true, so \<open>if timestamp\<close> tests for
  \<open>None\<close>.\<close>

definition stop_tracking ::
  "int option \<Rightarrow> int option \<Rightarrow> branch list \<Rightarrow> branch list \<times> (error + flow list)" where
  "stop_tracking cutoff ts trk =
     (case ts of
        Some t \<Rightarrow>
          (case stop_tracking_loop cutoff t 0 (objects trk) [] of
             (objs, r) \<Rightarrow> (map snd objs, r))
      | None \<Rightarrow>
          (case collect (\<lambda>b. follow_back b (amt b) None) trk of
             Inl e \<Rightarrow> (trk, Inl e)
           | Inr flows \<Rightarrow> ([], Inr flows)))"

text \<open>\<open>extend_branches\<close> of the tracker class in use, for an account of balance
  \<open>balance\<close>.\<close>

definition extend_branches ::
  "tracker_class \<Rightarrow> real \<Rightarrow> branch list \<Rightarrow> transaction
     \<Rightarrow> (branch list \<times> (error + (branch list \<times> flows))) option" where
  "extend_branches cls balance trk this_txn =
     (case tracker_type cls of
        No_tracking \<Rightarrow> Some (trk, Tracker_extend_branches (resolution_limit cls) this_txn)
      | Greedy \<Rightarrow>
          map_option (\<lambda>(trk', r). (trk', map_sum id (\<lambda>(bs, fs). (bs, Flow_list fs)) r))
            (Greedy_extend_branches (resolution_limit cls) trk this_txn)
      | Well_mixed \<Rightarrow>
          (case Well_mixed_extend_branches (resolution_limit cls) balance trk this_txn of
             (trk', r) \<Rightarrow> Some (trk', map_sum id (\<lambda>(bs, fs). (bs, Flow_list fs)) r)))"

text \<open>What the tracker's methods read besides the tracker: the system's fee convention
  and time window, and the account that owns the tracker.\<close>

record account =
  acct_ID :: string
  starting_balance :: real
  balance :: real
  tracked :: bool
  tracker :: "branch list option"

record system =
  accounts :: "(string \<times> account) list"
  timewindow :: "int \<times> int"
  fee_conv :: "fee_convention option"

text \<open>The dictionary of an inferred deposit or withdraw of the account itself.\<close>

definition inferred_dict :: "int \<Rightarrow> real \<Rightarrow> real \<Rightarrow> string \<Rightarrow> string \<Rightarrow> txn_dict" where
  "inferred_dict ts a f ty c =
     \<lparr> d_txn_ID = ''i'', d_timestamp = ts, d_amt = Some a, d_src_fee = Some f,
       d_tgt_fee = Some 0, d_type = Some ty, d_categ = c,
       d_src_categ = None, d_tgt_categ = None \<rparr>"

text \<open>\<open>Tracker.infer_deposit(amt)\<close>: the tracker after the call.\<close>

definition infer_deposit ::
  "tracker_class \<Rightarrow> system \<Rightarrow> account \<Rightarrow> branch list \<Rightarrow> real \<Rightarrow> error + branch list" where
  "infer_deposit cls sys a trk x =
     (if x > resolution_limit cls then
        (case Transaction_init (fee_conv sys) (acct_ID a) (acct_ID a)
                (inferred_dict (fst (timewindow sys)) x 0 ''inferred'' ''deposit'') of
           Inl e \<Rightarrow> Inl e
         | Inr inferred_deposit \<Rightarrow> Inr (add_branches trk (new_root inferred_deposit)))
      else Inr trk)"

text \<open>\<open>Tracker.infer_withdraw(amt, fee=0, type='inferred', track=True)\<close>: the tracker
  after the call and the flows it yields. The list of flows is complete before the
  first of them is yielded.\<close>

definition infer_withdraw ::
  "tracker_class \<Rightarrow> system \<Rightarrow> account \<Rightarrow> branch list \<Rightarrow> real \<Rightarrow> real \<Rightarrow> string \<Rightarrow> bool
     \<Rightarrow> (branch list \<times> (error + flow list)) option" where
  "infer_withdraw cls sys a trk x f ty track =
     (if x + f > resolution_limit cls then
        (case Transaction_init (fee_conv sys) (acct_ID a) (acct_ID a)
                (inferred_dict (snd (timewindow sys)) x f ty ''withdraw'') of
           Inl e \<Rightarrow> Some (trk, Inl e)
         | Inr inferred_withdraw \<Rightarrow>
             (case extend_branches cls (balance a) trk inferred_withdraw of
                None \<Rightarrow> None
              | Some (trk', Inl e) \<Rightarrow> Some (trk', Inl e)
              | Some (trk', Inr (new_branches, new_flows)) \<Rightarrow>
                  (case new_leaves new_branches (\<not> track) of
                     Inl e \<Rightarrow> Some (trk', Inl e)
                   | Inr leaves \<Rightarrow> Some (trk', list_plus leaves new_flows))))
      else Some (trk, Inr []))"

section \<open>Accounts and the engine\<close>

text \<open>\<open>System.accounts\<close> is the dictionary of the account objects, in insertion order. A
  transaction's \<open>src\<close> and \<open>tgt\<close> are objects of that dictionary
  (\<open>initialize_transactions\<close> takes them from it); they are read with
  \<open>System.get_account\<close>, which raises \<open>KeyError\<close> on an unknown identifier.\<close>

definition get_account :: "system \<Rightarrow> string \<Rightarrow> error + account" where
  "get_account sys i = (case map_of (accounts sys) i of None \<Rightarrow> Inl KeyError | Some a \<Rightarrow> Inr a)"

definition set_account :: "system \<Rightarrow> string \<Rightarrow> account \<Rightarrow> system" where
  "set_account sys i a = sys \<lparr> accounts := AList.update i a (accounts sys) \<rparr>"

definition has_tracker :: "account \<Rightarrow> bool" where
  "has_tracker a = (tracker a \<noteq> None)"

text \<open>\<open>Account.track(Tracker_Class)\<close> with \<open>Tracker.__init__\<close>: the new tracker is
  empty, and holds the inferred deposit of the balance when inference is on. The
  attribute is assigned only if the constructor returned.\<close>

definition track :: "tracker_class \<Rightarrow> system \<Rightarrow> account \<Rightarrow> error + account" where
  "track cls sys a =
     (case (if infer cls then infer_deposit cls sys a [] (balance a) else Inr []) of
        Inl e \<Rightarrow> Inl e
      | Inr trk \<Rightarrow> Inr (a \<lparr> tracker := Some trk \<rparr>))"

definition close_out :: "account \<Rightarrow> account" where
  "close_out a = a \<lparr> balance := 0, tracker := None \<rparr>"

text \<open>The three lines \<open>acct.tracked = True; if not acct.has_tracker(): acct.track(cls)\<close>
  of \<open>Tracker.process\<close>, on the account \<open>i\<close>: the system after them, and the exception
  if one was raised.\<close>

definition mark_tracked :: "tracker_class \<Rightarrow> system \<Rightarrow> string \<Rightarrow> system \<times> error option" where
  "mark_tracked cls sys i =
     (case get_account sys i of
        Inl e \<Rightarrow> (sys, Some e)
      | Inr a \<Rightarrow>
          (let a1 = a \<lparr> tracked := True \<rparr> in
           if has_tracker a1 then (set_account sys i a1, None)
           else
             (case track cls sys a1 of
                Inl e \<Rightarrow> (set_account sys i a1, Some e)
              | Inr a2 \<Rightarrow> (set_account sys i a2, None))))"

text \<open>A method of the tracker of account \<open>i\<close>, called through \<open>acct.tracker\<close>
  (\<open>AttributeError\<close> when that is \<open>None\<close>): the system with the tracker as the call left
  it, and what the call returned or raised.\<close>

definition tracker_infer_withdraw ::
  "tracker_class \<Rightarrow> system \<Rightarrow> string \<Rightarrow> real \<Rightarrow> real \<Rightarrow> string \<Rightarrow> bool
     \<Rightarrow> (system \<times> (error + flow list)) option" where
  "tracker_infer_withdraw cls sys i x f ty tr =
     (case get_account sys i of
        Inl e \<Rightarrow> Some (sys, Inl e)
      | Inr a \<Rightarrow>
          (case tracker a of
             None \<Rightarrow> Some (sys, Inl AttributeError)
           | Some trk \<Rightarrow>
               (case infer_withdraw cls sys a trk x f ty tr of
                  None \<Rightarrow> None
                | Some (trk', r) \<Rightarrow> Some (set_account sys i (a \<lparr> tracker := Some trk' \<rparr>), r))))"

definition tracker_extend_branches ::
  "tracker_class \<Rightarrow> system \<Rightarrow> string \<Rightarrow> transaction
     \<Rightarrow> (system \<times> (error + (branch list \<times> flows))) option" where
  "tracker_extend_branches cls sys i this_txn =
     (case get_account sys i of
        Inl e \<Rightarrow> Some (sys, Inl e)
      | Inr a \<Rightarrow>
          (case tracker a of
             None \<Rightarrow> Some (sys, Inl AttributeError)
           | Some trk \<Rightarrow>
               (case extend_branches cls (balance a) trk this_txn of
                  None \<Rightarrow> None
                | Some (trk', r) \<Rightarrow> Some (set_account sys i (a \<lparr> tracker := Some trk' \<rparr>), r))))"

definition tracker_add_branches :: "system \<Rightarrow> string \<Rightarrow> branch list \<Rightarrow> system \<times> error option" where
  "tracker_add_branches sys i branches =
     (case get_account sys i of
        Inl e \<Rightarrow> (sys, Some e)
      | Inr a \<Rightarrow>
          (case tracker a of
             None \<Rightarrow> (sys, Some AttributeError)
           | Some trk \<Rightarrow>
               (set_account sys i (a \<lparr> tracker := Some (add_branches trk branches) \<rparr>), None)))"

text \<open>
  \<open>Tracker.process\<close> is a generator. A run of it is the system and the transaction as
  it left them, the flows it yielded, and the exception that ended it, if one did;
  \<open>None\<close> is a run that does not end.

  First the block under \<open>if txn.amt_in < 0\<close>.
\<close>

definition process_negative ::
  "tracker_class \<Rightarrow> system \<Rightarrow> transaction \<Rightarrow> bool
     \<Rightarrow> (system \<times> transaction \<times> flow list \<times> error option) option" where
  "process_negative cls sys t tgt_track =
     (if amt_in t < 0 then
        (case (if tgt_track then
                 (case mark_tracked cls sys (tgt t) of
                    (sys1, Some e) \<Rightarrow> Some (sys1, Inl e)
                  | (sys1, None) \<Rightarrow>
                      tracker_infer_withdraw cls sys1 (tgt t) 0 (- amt_in t) ''fee'' True)
               else Some (sys, Inr [])) of
           None \<Rightarrow> None
         | Some (sys2, Inl e) \<Rightarrow> Some (sys2, t, [], Some e)
         | Some (sys2, Inr flows) \<Rightarrow>
             (case get_account sys2 (tgt t) of
                Inl e \<Rightarrow> Some (sys2, t, flows, Some e)
              | Inr a \<Rightarrow>
                  Some (set_account sys2 (tgt t) (a \<lparr> balance := balance a + amt_in t \<rparr>),
                        t \<lparr> fee_scaling := Some 1, amt_in := 0 \<rparr>, flows, None)))
      else Some (sys, t, [], None))"

text \<open>The source side of the block under \<open>if txn.amt_out > cls.resolution_limit\<close>: the
  system, the value of \<open>new_branches\<close>, the flows yielded and the exception, if any.\<close>

definition process_source ::
  "tracker_class \<Rightarrow> system \<Rightarrow> transaction \<Rightarrow> bool \<Rightarrow> bool
     \<Rightarrow> (system \<times> branch list \<times> flow list \<times> error option) option" where
  "process_source cls sys t src_track tgt_track =
     (if src_track then
        (case mark_tracked cls sys (src t) of
           (sys1, Some e) \<Rightarrow> Some (sys1, [], [], Some e)
         | (sys1, None) \<Rightarrow>
             (case tracker_extend_branches cls sys1 (src t) t of
                None \<Rightarrow> None
              | Some (sys2, Inl e) \<Rightarrow> Some (sys2, [], [], Some e)
              | Some (sys2, Inr (new_branches, new_flows)) \<Rightarrow>
                  (case yield_from new_flows of
                     Inl e \<Rightarrow> Some (sys2, new_branches, [], Some e)
                   | Inr flows \<Rightarrow> Some (sys2, new_branches, flows, None))))
      else
        (case (case get_account sys (src t) of
                 Inl e \<Rightarrow> Some (sys, Inl e)
               | Inr a \<Rightarrow>
                   if has_tracker a then
                     (case tracker_extend_branches cls sys (src t) t of
                        None \<Rightarrow> None
                      | Some (sys1, Inl e) \<Rightarrow> Some (sys1, Inl e)
                      | Some (sys1, Inr (new_branches, new_flows)) \<Rightarrow>
                          (case new_leaves new_branches True of
                             Inl e \<Rightarrow> Some (sys1, Inl e)
                           | Inr leaves \<Rightarrow> Some (sys1, list_plus leaves new_flows)))
                   else Some (sys, Inr [])) of
           None \<Rightarrow> None
         | Some (sys1, Inl e) \<Rightarrow> Some (sys1, [], [], Some e)
         | Some (sys1, Inr flows) \<Rightarrow>
             if tgt_track then
               (let new_branch = Branch None t (amt_in t) in
                if amt_in t > resolution_limit cls then Some (sys1, [new_branch], flows, None)
                else
                  (case follow_back new_branch (amt new_branch) (Some (amt_out t - amt_in t)) of
                     Inl e \<Rightarrow> Some (sys1, [], flows, Some e)
                   | Inr fl \<Rightarrow> Some (sys1, [], flows @ [fl], None)))
             else Some (sys1, [], flows, None)))"

text \<open>The target side of the same block.\<close>

definition process_target ::
  "tracker_class \<Rightarrow> system \<Rightarrow> transaction \<Rightarrow> bool \<Rightarrow> branch list
     \<Rightarrow> system \<times> flow list \<times> error option" where
  "process_target cls sys t tgt_track new_branches =
     (if tgt_track then
        (case mark_tracked cls sys (tgt t) of
           (sys1, Some e) \<Rightarrow> (sys1, [], Some e)
         | (sys1, None) \<Rightarrow>
             (case tracker_add_branches sys1 (tgt t) new_branches of
                (sys2, err) \<Rightarrow> (sys2, [], err)))
      else
        (case new_leaves new_branches False of
           Inl e \<Rightarrow> (sys, [], Some e)
         | Inr leaves \<Rightarrow> (sys, leaves, None)))"

text \<open>The block under \<open>if txn.amt_out > cls.resolution_limit\<close>, entered with the flows
  yielded so far.\<close>

definition process_positive ::
  "tracker_class \<Rightarrow> system \<Rightarrow> transaction \<Rightarrow> flow list \<Rightarrow> bool \<Rightarrow> bool
     \<Rightarrow> (system \<times> transaction \<times> flow list \<times> error option) option" where
  "process_positive cls sys t flows src_track tgt_track =
     (if amt_out t > resolution_limit cls then
        (case process_source cls sys t src_track tgt_track of
           None \<Rightarrow> None
         | Some (sys1, new_branches, flows1, Some e) \<Rightarrow> Some (sys1, t, flows @ flows1, Some e)
         | Some (sys1, new_branches, flows1, None) \<Rightarrow>
             (case process_target cls sys1 t tgt_track new_branches of
                (sys2, flows2, err) \<Rightarrow> Some (sys2, t, flows @ flows1 @ flows2, err)))
      else Some (sys, t, flows, None))"

text \<open>\<open>Tracker.process(txn, src_track, tgt_track)\<close>: the two blocks in turn.\<close>

definition process ::
  "tracker_class \<Rightarrow> system \<Rightarrow> transaction \<Rightarrow> bool \<Rightarrow> bool
     \<Rightarrow> (system \<times> transaction \<times> flow list \<times> error option) option" where
  "process cls sys t src_track tgt_track =
     (case process_negative cls sys t tgt_track of
        None \<Rightarrow> None
      | Some (sys1, t1, flows1, Some e) \<Rightarrow> Some (sys1, t1, flows1, Some e)
      | Some (sys1, t1, flows1, None) \<Rightarrow>
          process_positive cls sys1 t1 flows1 src_track tgt_track)"

text \<open>\<open>System.process(txn)\<close>: the balances of the source and then of the target.\<close>

definition System_process :: "system \<Rightarrow> transaction \<Rightarrow> error + system" where
  "System_process sys t =
     (case get_account sys (src t) of
        Inl e \<Rightarrow> Inl e
      | Inr s \<Rightarrow>
          (let sys1 = set_account sys (src t) (s \<lparr> balance := balance s - amt_out t \<rparr>) in
           case get_account sys1 (tgt t) of
             Inl e \<Rightarrow> Inl e
           | Inr g \<Rightarrow> Inr (set_account sys1 (tgt t) (g \<lparr> balance := balance g + amt_in t \<rparr>))))"

subsection \<open>End of the stream\<close>

text \<open>Python's truth test of \<open>time_cutoff\<close>: \<open>None\<close> and \<open>timedelta(0)\<close> are false.\<close>

definition cutoff_set :: "tracker_class \<Rightarrow> bool" where
  "cutoff_set cls = (time_cutoff cls \<noteq> None \<and> time_cutoff cls \<noteq> Some 0)"

text \<open>The \<open>try\<close> block of \<open>track_remaining_funds\<close> for one account: the flows it yields.
  An exception ends the block (it is written to the report) and keeps the flows yielded
  before it. The account is closed out after the block, so the tracker the block leaves
  is not read again.\<close>

definition remaining_funds :: "tracker_class \<Rightarrow> system \<Rightarrow> account \<Rightarrow> flow list option" where
  "remaining_funds cls sys a =
     (case tracker a of
        None \<Rightarrow> Some []
      | Some trk \<Rightarrow>
          (case (if cutoff_set cls
                 then stop_tracking (time_cutoff cls) (Some (snd (timewindow sys))) trk
                 else (trk, Inr [])) of
             (trk1, Inl e) \<Rightarrow> Some []
           | (trk1, Inr flows1) \<Rightarrow>
               if infer cls then
                 (if balance a > resolution_limit cls then
                    (case infer_withdraw cls sys a trk1 (balance a) 0 ''inferred'' True of
                       None \<Rightarrow> None
                     | Some (trk2, Inl e) \<Rightarrow> Some flows1
                     | Some (trk2, Inr flows2) \<Rightarrow> Some (flows1 @ flows2))
                  else Some flows1)
               else
                 (if balance a > resolution_limit cls then
                    (case stop_tracking (time_cutoff cls) None trk1 of
                       (trk2, Inl e) \<Rightarrow> Some flows1
                     | (trk2, Inr flows2) \<Rightarrow> Some (flows1 @ flows2))
                  else Some flows1)))"

text \<open>\<open>for acct_ID, acct in system.accounts.items()\<close>: the accounts after the pass and the
  flows yielded, in order.\<close>

fun track_remaining_accounts ::
  "tracker_class \<Rightarrow> system \<Rightarrow> (string \<times> account) list
     \<Rightarrow> ((string \<times> account) list \<times> flow list) option" where
  "track_remaining_accounts cls sys [] = Some ([], [])"
| "track_remaining_accounts cls sys ((i, a) # rest) =
     (case remaining_funds cls sys a of
        None \<Rightarrow> None
      | Some flows \<Rightarrow>
          (case track_remaining_accounts cls sys rest of
             None \<Rightarrow> None
           | Some (rest', flows') \<Rightarrow> Some ((i, close_out a) # rest', flows @ flows')))"

text \<open>\<open>track_remaining_funds(system, report_file)\<close>, for the tracker class of the run.\<close>

definition track_remaining_funds ::
  "tracker_class \<Rightarrow> system \<Rightarrow> (system \<times> flow list) option" where
  "track_remaining_funds cls sys =
     (case track_remaining_accounts cls sys (accounts sys) of
        None \<Rightarrow> None
      | Some (accts, flows) \<Rightarrow> Some (sys \<lparr> accounts := accts \<rparr>, flows))"

section \<open>Concrete inputs\<close>

text \<open>A transaction with the given amounts, its fee and fee scaling as the constructor
  derives them; an account, and a tracker class with the default resolution limit.\<close>

definition example_txn ::
  "string \<Rightarrow> int \<Rightarrow> string \<Rightarrow> string \<Rightarrow> string \<Rightarrow> real \<Rightarrow> real \<Rightarrow> transaction" where
  "example_txn i ts s t c out inn =
     \<lparr> txn_ID = i, timestamp = ts, src = s, tgt = t, txn_type = ''cash'', categ = c,
       amt_out = out, amt_in = inn, fee = out - inn,
       fee_scaling = (if inn = 0 then None else Some ((out - inn) / inn)) \<rparr>"

definition example_account :: "string \<Rightarrow> real \<Rightarrow> branch list option \<Rightarrow> account" where
  "example_account i b trk =
     \<lparr> acct_ID = i, starting_balance = 0, balance = b, tracked = (trk \<noteq> None), tracker = trk \<rparr>"

definition example_class :: "heuristic \<Rightarrow> int option \<Rightarrow> bool \<Rightarrow> tracker_class" where
  "example_class h c infers =
     \<lparr> tracker_type = h, time_cutoff = c, resolution_limit = 1/100, infer = infers \<rparr>"

text \<open>For each account of a system: its balance and the sum of the amounts in its
  tracker.\<close>

definition balances_and_tracked :: "system \<Rightarrow> (string \<times> real \<times> real option) list" where
  "balances_and_tracked sys =
     map (\<lambda>(i, a). (i, balance a, map_option tracked_sum (tracker a))) (accounts sys)"

text \<open>Account B holds 100, of which two deposits, of 1/64 and of 99, are tracked; it
  then sends 50 to C.\<close>

definition pool_B :: "branch list" where
  "pool_B = [Branch None (example_txn ''t1'' 1 ''A'' ''B'' ''deposit'' (1/64) (1/64)) (1/64),
             Branch None (example_txn ''t2'' 2 ''A'' ''B'' ''deposit'' 99 99) 99]"

definition system_B :: system where
  "system_B = \<lparr> accounts = [(''B'', example_account ''B'' 100 (Some pool_B)),
                            (''C'', example_account ''C'' 0 None)],
                timewindow = (0, 100), fee_conv = None \<rparr>"

definition withdraw_50 :: transaction where
  "withdraw_50 = example_txn ''t3'' 3 ''B'' ''C'' ''withdraw'' 50 50"

text \<open>Three deposits of 10, made at hours 0, 1 and 20.\<close>

definition aged_branches :: "branch list" where
  "aged_branches = [Branch None (example_txn ''t1'' 0 ''A'' ''B'' ''deposit'' 10 10) 10,
                    Branch None (example_txn ''t2'' 1 ''A'' ''B'' ''deposit'' 10 10) 10,
                    Branch None (example_txn ''t3'' 20 ''A'' ''B'' ''deposit'' 10 10) 10]"

text \<open>A deposit of 100 that cost the sender a fee of 10, and a chain of two hops through
  it.\<close>

definition deposit_with_fee :: transaction where
  "deposit_with_fee = example_txn ''t1'' 1 ''A'' ''B'' ''deposit'' 110 100"

definition two_hops :: branch where
  "two_hops = Branch (Some (Branch None deposit_with_fee 100))
                (example_txn ''t2'' 5 ''B'' ''C'' ''withdraw'' 100 100) 100"

text \<open>Account B holds one tracked deposit of 10, under the recipient fee convention; A
  sends it 5, on which the recipient fee is 7.\<close>

definition deposit_10 :: "branch list" where
  "deposit_10 = [Branch None (example_txn ''t0'' 0 ''A'' ''B'' ''deposit'' 10 10) 10]"

definition system_recipient :: system where
  "system_recipient = \<lparr> accounts = [(''A'', example_account ''A'' 10 None),
                                    (''B'', example_account ''B'' 10 (Some deposit_10))],
                        timewindow = (0, 100), fee_conv = Some Recipient \<rparr>"

definition over_fee :: transaction where
  "over_fee = example_txn ''t1'' 1 ''A'' ''B'' ''deposit'' 5 (- 2)"

text \<open>Four input records: a recipient fee of -1 on an amount of 10; a sender fee of 10
  on an amount of 100; an amount and a sender fee that are not numbers; and an amount
  that reads \<open>nan\<close>, with the transaction built from it.\<close>

definition record_negative_fee :: "field txn_dict_of" where
  "record_negative_fee =
     \<lparr> d_txn_ID = ''t1'', d_timestamp = 1, d_amt = Some (Float (Finite 10)),
       d_src_fee = None, d_tgt_fee = Some (Float (Finite (- 1))), d_type = Some ''cash'',
       d_categ = ''transfer'', d_src_categ = None, d_tgt_categ = None \<rparr>"

definition record_sender_fee :: "field txn_dict_of" where
  "record_sender_fee =
     \<lparr> d_txn_ID = ''t2'', d_timestamp = 2, d_amt = Some (Float (Finite 100)),
       d_src_fee = Some (Float (Finite 10)), d_tgt_fee = None, d_type = Some ''cash'',
       d_categ = ''transfer'', d_src_categ = None, d_tgt_categ = None \<rparr>"

definition record_strings :: "field txn_dict_of" where
  "record_strings =
     \<lparr> d_txn_ID = ''t3'', d_timestamp = 3, d_amt = Some (Str ''ten''),
       d_src_fee = Some (Str ''one''), d_tgt_fee = None, d_type = Some ''cash'',
       d_categ = ''transfer'', d_src_categ = None, d_tgt_categ = None \<rparr>"

definition record_nan :: "field txn_dict_of" where
  "record_nan =
     \<lparr> d_txn_ID = ''t4'', d_timestamp = 4, d_amt = Some (Float NaN),
       d_src_fee = Some (Float (Finite 0)), d_tgt_fee = None, d_type = Some ''cash'',
       d_categ = ''transfer'', d_src_categ = None, d_tgt_categ = None \<rparr>"

definition transaction_nan :: "field transaction_of" where
  "transaction_nan =
     \<lparr> txn_ID = ''t4'', timestamp = 4, src = ''A'', tgt = ''B'', txn_type = ''cash'',
       categ = ''transfer'', amt_out = Float NaN, amt_in = Float NaN,
       fee = Float (Finite 0), fee_scaling = Some (Float NaN) \<rparr>"

section \<open>Transaction construction\<close>

text \<open>On finite floats the constructor is the one the engine uses.\<close>

lemma get_amounts_values_finite:
  "get_amounts_values conv (dict_values d)
     = map_sum id (\<lambda>(out, inn, f). (finite_field out, finite_field inn, finite_field f))
         (get_amounts conv d)"
proof (cases conv)
  case None
  then show ?thesis
    by (auto simp: dict_values_def finite_field_def attr_def split: option.splits)
next
  case (Some c)
  then show ?thesis
    by (cases c)
       (auto simp: dict_values_def finite_field_def attr_def float_sub_def
          split: option.splits)
qed

lemma Transaction_init_values_finite:
  "Transaction_init_values conv s t (dict_values d)
     = map_sum id transaction_values (Transaction_init conv s t d)"
proof (cases "get_amounts conv d")
  case (Inl e)
  then show ?thesis
    by (simp add: Transaction_init_values_def Transaction_init_def get_amounts_values_finite)
next
  case (Inr p)
  obtain out inn f where p: "p = (out, inn, f)" by (cases p)
  have ty: "default_type (dict_values d) = default_type d"
    by (simp add: default_type_def dict_values_def split: option.splits sum.splits)
  have sel: "d_txn_ID (dict_values d) = d_txn_ID d"
    "d_timestamp (dict_values d) = d_timestamp d"
    "d_categ (dict_values d) = d_categ d"
    by (simp_all add: dict_values_def)
  from Inr p show ?thesis
    by (auto simp: Transaction_init_values_def Transaction_init_def get_amounts_values_finite
        finite_field_def transaction_values_def sel ty split: sum.splits)
qed

text \<open>Two floats neither of which is NaN, and any two strings, are comparable.\<close>

lemma field_not_less:
  "field_less x y = Inr False \<Longrightarrow> x \<noteq> Float NaN \<Longrightarrow> y \<noteq> Float NaN
     \<Longrightarrow> field_le y x = Inr True"
proof (cases x; cases y)
  fix a b
  assume "x = Float a" "y = Float b" "field_less x y = Inr False"
    "x \<noteq> Float NaN" "y \<noteq> Float NaN"
  then show ?thesis
    by (cases a; cases b) (auto simp: float_le_def)
qed auto

text \<open>
  C9, amended. Whenever the amounts derived from an input record have
  \<open>amt_out < amt_in\<close>, construction raises (\<open>ValueError\<close>); and for a transaction that
  was constructed, under each of the three fee conventions (and under the default one),
  the test \<open>amt_out < amt_in\<close> was false, and \<open>amt_out \<ge> amt_in\<close> is true whenever
  neither amount is NaN.
\<close>

theorem Transaction_init_amounts:
  "(get_amounts_values conv d = Inr (out, inn, f) \<and> field_less out inn = Inr True
      \<longrightarrow> Transaction_init_values conv s t d = Inl ValueError)
   \<and> (Transaction_init_values conv' s' t' d' = Inr x
        \<longrightarrow> field_less (amt_out x) (amt_in x) = Inr False
            \<and> (amt_out x \<noteq> Float NaN \<and> amt_in x \<noteq> Float NaN
                 \<longrightarrow> field_le (amt_in x) (amt_out x) = Inr True))"
proof -
  have first: "Transaction_init_values conv s t d = Inl ValueError"
    if "get_amounts_values conv d = Inr (out, inn, f)" and "field_less out inn = Inr True"
    using that by (simp add: Transaction_init_values_def)
  have guard: "field_less (amt_out x) (amt_in x) = Inr False"
    if "Transaction_init_values conv' s' t' d' = Inr x"
    using that
    by (auto simp: Transaction_init_values_def split: sum.splits bool.splits prod.splits)
  have second: "field_le (amt_in x) (amt_out x) = Inr True"
    if "Transaction_init_values conv' s' t' d' = Inr x"
      and "amt_out x \<noteq> Float NaN" and "amt_in x \<noteq> Float NaN"
    using field_not_less[OF guard[OF that(1)] that(2,3)] .
  from first guard second show ?thesis by blast
qed

text \<open>At three of the records: the negative recipient fee is refused; the sender fee
  gives 110 out and 100 in; the two strings give \<open>'tenone'\<close> out and \<open>'ten'\<close> in.\<close>

theorem Transaction_init_amounts_witness:
  "get_amounts_values (Some Recipient) record_negative_fee
     = Inr (Float (Finite 10), Float (Finite 11), Float (Finite (- 1)))
   \<and> field_less (Float (Finite 10)) (Float (Finite 11)) = Inr True
   \<and> Transaction_init_values (Some Recipient) ''A'' ''B'' record_negative_fee = Inl ValueError
   \<and> (\<exists>x. Transaction_init_values (Some Sender) ''A'' ''B'' record_sender_fee = Inr x
          \<and> amt_out x = Float (Finite 110) \<and> amt_in x = Float (Finite 100)
          \<and> field_le (amt_in x) (amt_out x) = Inr True)
   \<and> (\<exists>x. Transaction_init_values (Some Sender) ''A'' ''B'' record_strings = Inr x
          \<and> amt_out x = Str ''tenone'' \<and> amt_in x = Str ''ten''
          \<and> field_le (amt_in x) (amt_out x) = Inr True)"
proof -
  have g: "get_amounts_values (Some Recipient) record_negative_fee
             = Inr (Float (Finite 10), Float (Finite 11), Float (Finite (- 1)))"
    by (simp add: record_negative_fee_def attr_def float_sub_def)
  have l: "field_less (Float (Finite 10)) (Float (Finite 11)) = Inr True" by simp
  have "map_sum id (\<lambda>x. (amt_out x, amt_in x))
          (Transaction_init_values (Some Sender) ''A'' ''B'' record_sender_fee)
          = Inr (Float (Finite 110), Float (Finite 100))"
    by (simp add: Transaction_init_values_def record_sender_fee_def attr_def default_type_def)
  then obtain x where
    r: "Transaction_init_values (Some Sender) ''A'' ''B'' record_sender_fee = Inr x"
    and o: "amt_out x = Float (Finite 110)" and i: "amt_in x = Float (Finite 100)"
    by (cases "Transaction_init_values (Some Sender) ''A'' ''B'' record_sender_fee") auto
  have "map_sum id (\<lambda>x. (amt_out x, amt_in x))
          (Transaction_init_values (Some Sender) ''A'' ''B'' record_strings)
          = Inr (Str ''tenone'', Str ''ten'')"
    by (simp add: Transaction_init_values_def record_strings_def attr_def default_type_def)
  then obtain y where
    r': "Transaction_init_values (Some Sender) ''A'' ''B'' record_strings = Inr y"
    and o': "amt_out y = Str ''tenone''" and i': "amt_in y = Str ''ten''"
    by (cases "Transaction_init_values (Some Sender) ''A'' ''B'' record_strings") auto
  from Transaction_init_amounts
         [of "Some Recipient" record_negative_fee "Float (Finite 10)" "Float (Finite 11)"
             "Float (Finite (- 1))" "''A''" "''B''"
             "Some Sender" "''A''" "''B''" record_sender_fee x]
       g l r o i
  have first: "Transaction_init_values (Some Recipient) ''A'' ''B'' record_negative_fee
                 = Inl ValueError"
    and second: "field_le (amt_in x) (amt_out x) = Inr True"
    by auto
  from Transaction_init_amounts
         [of "Some Recipient" record_negative_fee "Float (Finite 10)" "Float (Finite 11)"
             "Float (Finite (- 1))" "''A''" "''B''"
             "Some Sender" "''A''" "''B''" record_strings y]
       r' o' i'
  have third: "field_le (amt_in y) (amt_out y) = Inr True"
    by auto
  from g l first second third r o i r' o' i' show ?thesis by blast
qed

text \<open>The claim as it was stated fails on the record whose amount reads \<open>nan\<close>: under the
  sender convention both derived amounts are NaN, the test \<open>amt_out < amt_in\<close> is false,
  the transaction is constructed, and \<open>amt_out \<ge> amt_in\<close> is false of it.\<close>

theorem Transaction_init_nan:
  "Transaction_init_values (Some Sender) ''A'' ''B'' record_nan = Inr transaction_nan
   \<and> field_le (amt_in transaction_nan) (amt_out transaction_nan) = Inr False"
  by (simp add: Transaction_init_values_def record_nan_def transaction_nan_def attr_def
      default_type_def float_le_def)

section \<open>Following a branch back\<close>

lemma fee_or_scaled_cases:
  "fee_or_scaled b a None
     = (case fee_scaling (txn b) of None \<Rightarrow> Inl TypeError | Some k \<Rightarrow> Inr (a * k))"
  "fee_or_scaled b a (Some 0)
     = (case fee_scaling (txn b) of None \<Rightarrow> Inl TypeError | Some k \<Rightarrow> Inr (a * k))"
  "f \<noteq> 0 \<Longrightarrow> fee_or_scaled b a (Some f) = Inr f"
  by (simp_all add: fee_or_scaled_def)

text \<open>The parent is asked for \<open>amt + fee\<close>, with no fee of its own.\<close>

lemma follow_back_parent:
  "fee_or_scaled (Branch (Some pb) t x) a f = Inr f'
     \<Longrightarrow> follow_back (Branch (Some pb) t x) a f
           = (case follow_back pb (a + f') None of
                Inl e \<Rightarrow> Inl e
              | Inr fl \<Rightarrow> Flow_extend fl (Branch (Some pb) t x) a)"
  by simp

text \<open>
  C4. The claim is that \<open>follow_back\<close> uses a fee the caller supplies, a fee of 0
  included. On the root branch of the deposit of 100 with \<open>fee_scaling = 1/10\<close>, following
  100 back with \<open>fee = 0\<close> gives what omitting the fee gives: the fee is computed as
  \<open>100 \<cdot> 1/10\<close> and the flow has amount 110, not \<open>100 + 0\<close>.
\<close>

theorem follow_back_fee_zero:
  "follow_back (Branch None deposit_with_fee 100) 100 (Some 0)
     = follow_back (Branch None deposit_with_fee 100) 100 None
   \<and> map_sum id flow_amt (follow_back (Branch None deposit_with_fee 100) 100 (Some 0)) = Inr 110"
  by code_simp

lemma follow_back_produced: "follow_back b a f = Inr fl \<Longrightarrow> flow_produced fl"
proof (induction b a f arbitrary: fl rule: follow_back.induct)
  case (1 p t x a f)
  show ?case
  proof (cases "fee_or_scaled (Branch p t x) a f")
    case (Inl e)
    with "1.prems" show ?thesis by simp
  next
    case (Inr f')
    show ?thesis
    proof (cases p)
      case None
      with Inr "1.prems" have "Flow_init (Branch p t x) a f' = Inr fl" by simp
      then show ?thesis by (rule flow_produced.seeded)
    next
      case (Some pb)
      with Inr "1.prems" obtain fl0 where
        a: "follow_back pb (a + f') None = Inr fl0"
        and b: "Flow_extend fl0 (Branch p t x) a = Inr fl"
        by (auto split: sum.splits)
      from "1.IH"[OF Inr Some a] b show ?thesis by (rule flow_produced.extended)
    qed
  qed
qed

text \<open>
  C6. Every flow produced, at seeding and after any number of \<open>extend\<close> steps, has one
  account more than transactions, one duration fewer, and as many revenue fractions as
  transactions.
\<close>

theorem flow_lengths:
  "flow_produced fl \<Longrightarrow>
     length (flow_acct_IDs fl) = length (flow_txn_IDs fl) + 1
     \<and> length (flow_durations fl) + 1 = length (flow_txn_IDs fl)
     \<and> length (flow_durations fl) = length (flow_txn_IDs fl) - 1
     \<and> length (flow_rev_fracs fl) = length (flow_txn_IDs fl)"
proof (induction rule: flow_produced.induct)
  case (seeded b a f fl)
  then show ?case by (auto simp: Flow_init_def split: if_splits)
next
  case (extended fl b a fl')
  then show ?case by (auto simp: Flow_extend_def Let_def split: if_splits option.splits)
qed

text \<open>The flow that following the chain of two hops back returns.\<close>

theorem flow_lengths_witness:
  "\<exists>fl. follow_back two_hops 100 None = Inr fl \<and> flow_produced fl
     \<and> flow_txn_IDs fl = [''t1'', ''t2'']
     \<and> length (flow_acct_IDs fl) = length (flow_txn_IDs fl) + 1
     \<and> length (flow_durations fl) + 1 = length (flow_txn_IDs fl)
     \<and> length (flow_rev_fracs fl) = length (flow_txn_IDs fl)"
proof -
  have "map_sum id flow_txn_IDs (follow_back two_hops 100 None) = Inr [''t1'', ''t2'']"
    by code_simp
  then obtain fl where r: "follow_back two_hops 100 None = Inr fl"
    and i: "flow_txn_IDs fl = [''t1'', ''t2'']"
    by (cases "follow_back two_hops 100 None") auto
  from follow_back_produced[OF r] have p: "flow_produced fl" .
  from flow_lengths[OF p] r p i show ?thesis by blast
qed


section \<open>The base tracker\<close>

lemma Tracker_extend_branches_unbound:
  "amt_out t \<le> res \<Longrightarrow> Tracker_extend_branches res t = Inl UnboundLocalError"
  by (simp add: Tracker_extend_branches_def)

lemma Tracker_extend_branches_object:
  "res < amt_out t \<Longrightarrow> amt_in t \<le> res \<Longrightarrow> Tracker_extend_branches res t = Inr (bs, fs)
     \<Longrightarrow> bs = [] \<and> (\<exists>fl. fs = Flow_object fl)"
  by (auto simp: Tracker_extend_branches_def Let_def split: sum.splits)

text \<open>
  C10. The claim is that the base \<open>extend_branches\<close> returns a pair of lists for every
  transaction and never raises. With the resolution limit at 1/100, a transaction of
  1/200 raises \<open>UnboundLocalError\<close>, and for a transaction that sends 1 of which 1/200
  arrives the second component returned is a \<open>Flow\<close> object, not a list.
\<close>

theorem Tracker_extend_branches_not_lists:
  "Tracker_extend_branches (1/100)
       (example_txn ''t1'' 1 ''A'' ''B'' ''transfer'' (1/200) (1/200))
     = Inl UnboundLocalError
   \<and> Tracker_extend_branches (1/100) (example_txn ''t2'' 1 ''A'' ''B'' ''transfer'' 1 (1/200))
     = Inr ([], Flow_object
              \<lparr> flow_timestamp = 1, flow_txn_IDs = [''t2''], flow_txn_types = [''cash''],
                beg_categ = ''transfer'', end_categ = ''transfer'',
                flow_acct_IDs = [''A'', ''B''], flow_amt = 1, flow_rev_fracs = [199/200],
                flow_frac_root = 1, flow_duration = 0, flow_durations = [],
                flow_length = 1, flow_length_wrev = 1/200 \<rparr>)"
  by code_simp

section \<open>The greedy tracker\<close>

lemma greedy_step_consumes:
  "trk \<noteq> [] \<Longrightarrow> amt (last trk) < a + res
     \<Longrightarrow> greedy_step res (trk, a, branches)
           = Inr (butlast trk, a - amt (last trk), branches @ [last trk])"
  by (simp add: greedy_step_def Let_def)

lemma greedy_step_splits:
  "trk \<noteq> [] \<Longrightarrow> a + res \<le> amt (last trk)
     \<Longrightarrow> greedy_step res (trk, a, branches)
           = Inr (butlast trk @ [decrement (last trk) a], 0,
                  branches @ [Branch (prev (last trk)) (txn (last trk)) a])"
  by (simp add: greedy_step_def Let_def)

text \<open>
  C5. The claim is that a tail branch of amount at most \<open>amt_to_remove + resolution_limit\<close>
  is consumed whole, and split only when larger. With the limit at 1/4 and 1 left to
  remove, a tail branch of exactly 5/4 is split: a branch of 1/4 stays in the tracker, a
  detached branch of 1 is collected and nothing is left to remove.
\<close>

theorem greedy_step_splits_at_limit:
  "greedy_step (1/4) ([Branch None (example_txn ''t1'' 1 ''A'' ''B'' ''deposit'' 2 2) (5/4)], 1, [])
     = Inr ([Branch None (example_txn ''t1'' 1 ''A'' ''B'' ''deposit'' 2 2) (1/4)], 0,
            [Branch None (example_txn ''t1'' 1 ''A'' ''B'' ''deposit'' 2 2) 1])"
  by code_simp

text \<open>With a resolution limit that is not negative the loop ends: a pass that consumes
  shortens the tracker, and after a pass that splits nothing is left to remove.\<close>

lemma greedy_loop_returns:
  "0 \<le> res \<Longrightarrow> \<exists>r. greedy_loop res (trk, a, bs) = Some r"
proof (induction "length trk" arbitrary: trk a bs rule: less_induct)
  case less
  show ?case
  proof (cases "a > res")
    case False
    then show ?thesis by (subst greedy_loop.simps) simp
  next
    case True
    show ?thesis
    proof (cases "trk = []")
      case True
      with \<open>a > res\<close> show ?thesis
        by (subst greedy_loop.simps) (simp add: greedy_step_def)
    next
      case False
      show ?thesis
      proof (cases "amt (last trk) < a + res")
        case True
        from False have "length (butlast trk) < length trk" by simp
        from less.hyps[OF this less.prems]
        obtain r where
          "greedy_loop res (butlast trk, a - amt (last trk), bs @ [last trk]) = Some r"
          by blast
        with True False \<open>a > res\<close> show ?thesis
          by (subst greedy_loop.simps) (simp add: greedy_step_def Let_def)
      next
        case nsplit: False
        have "greedy_loop res (butlast trk @ [decrement (last trk) a], 0,
                 bs @ [Branch (prev (last trk)) (txn (last trk)) a])
              = Some (butlast trk @ [decrement (last trk) a],
                      Inr (bs @ [Branch (prev (last trk)) (txn (last trk)) a]))"
          using less.prems by (subst greedy_loop.simps) simp
        with nsplit False \<open>a > res\<close> show ?thesis
          by (subst greedy_loop.simps) (simp add: greedy_step_def Let_def)
      qed
    qed
  qed
qed

lemma Greedy_extend_branches_returns:
  "0 \<le> res \<Longrightarrow> \<exists>r. Greedy_extend_branches res trk t = Some r"
proof -
  assume "0 \<le> res"
  from greedy_loop_returns[OF this]
  obtain r where "greedy_loop res (trk, min (amt_out t) (tracked_sum trk), []) = Some r"
    by blast
  then show ?thesis
    by (cases r) (auto simp: Greedy_extend_branches_def Let_def split: sum.splits)
qed

lemma extend_branches_returns:
  "0 \<le> resolution_limit cls \<Longrightarrow> \<exists>r. extend_branches cls b trk t = Some r"
  using Greedy_extend_branches_returns[of "resolution_limit cls" trk t]
  by (auto simp: extend_branches_def split: heuristic.splits prod.splits)

lemma infer_withdraw_returns:
  "0 \<le> resolution_limit cls \<Longrightarrow> \<exists>r. infer_withdraw cls sys a trk x f ty tr = Some r"
  using extend_branches_returns[of cls]
  apply (auto simp: infer_withdraw_def split: sum.splits option.splits prod.splits)
  by (metis option.distinct(1))

section \<open>The well-mixed tracker\<close>

text \<open>On a tracker of two branches the last loop removes the first when its remainder is
  below the limit, and then ends: the second branch is never read.\<close>

lemma well_mixed_shrink_skips:
  "stay_factor * amt b1 < res
     \<Longrightarrow> well_mixed_shrink res stay_factor 0 [(0, b1), (Suc 0, b2)] = [(Suc 0, b2)]"
  by simp

text \<open>
  C2. The claim is that after a well-mixed extension every branch left in the tracker was
  either removed (remainder below the resolution limit) or multiplied by
  \<open>stay_factor\<close>. With a balance of 100, tracked deposits of 1/64 and 99 and a
  transaction of 50, \<open>stay_factor\<close> is 1/2: the first branch is removed, and the second
  is still in the tracker with its amount of 99, not 99/2.
\<close>

theorem well_mixed_skips_branch:
  "fst (Well_mixed_extend_branches (1/100) 100 pool_B withdraw_50)
     = [Branch None (example_txn ''t2'' 2 ''A'' ''B'' ''deposit'' 99 99) 99]"
  by code_simp

text \<open>
  C1. The claim is that the sum of a tracker's amounts never exceeds the account's
  balance, up to resolution noise, across the tracker operations and the balance updates.
  Account B starts with a balance of 100 and a tracked sum of \<open>99 + 1/64\<close>. After
  \<open>Tracker.process\<close> of the withdraw of 50 (well-mixed, source tracked, target not) and
  \<open>System.process\<close>, its balance is 50 and its tracked sum is 99.
\<close>

theorem well_mixed_breaks_conservation:
  "balances_and_tracked system_B = [(''B'', 100, Some (99 + 1/64)), (''C'', 0, None)]
   \<and> (case process (example_class Well_mixed None False) system_B withdraw_50 True False of
         Some (sys1, t1, flows, None) \<Rightarrow>
           map_sum id balances_and_tracked (System_process sys1 t1)
             = Inr [(''B'', 50, Some 99), (''C'', 50, None)]
       | _ \<Rightarrow> False)"
  by code_simp

section \<open>Stopping tracking\<close>

lemma collect_length: "collect g xs = Inr ys \<Longrightarrow> length ys = length xs"
  by (induction xs arbitrary: ys) (auto split: sum.splits)

text \<open>Without a timestamp every branch is followed back and the tracker is emptied.\<close>

lemma stop_tracking_all:
  "collect (\<lambda>b. follow_back b (amt b) None) trk = Inr flows
     \<Longrightarrow> stop_tracking cutoff None trk = ([], Inr flows)"
  by (simp add: stop_tracking_def)

text \<open>With a timestamp, on a tracker of two branches: once the first is followed back and
  removed the loop ends, whatever the age of the second.\<close>

lemma stop_tracking_loop_skips:
  "c < ts - timestamp (txn b1) \<Longrightarrow> follow_back b1 (amt b1) None = Inr fl
     \<Longrightarrow> stop_tracking_loop (Some c) ts 0 [(0, b1), (Suc 0, b2)] []
           = ([(Suc 0, b2)], Inr [fl])"
  by simp

text \<open>
  C3. The claim is that \<open>stop_tracking(ts)\<close> follows back and removes every branch older
  than the cutoff. With a cutoff of 24 hours, at hour 30, of the deposits made at hours
  0, 1 and 20 the first two are older: only the first is followed back and removed, and
  the deposit of hour 1 stays in the tracker beside that of hour 20.
\<close>

theorem stop_tracking_skips_branch:
  "fst (stop_tracking (Some 24) (Some 30) aged_branches)
     = [Branch None (example_txn ''t2'' 1 ''A'' ''B'' ''deposit'' 10 10) 10,
        Branch None (example_txn ''t3'' 20 ''A'' ''B'' ''deposit'' 10 10) 10]
   \<and> map_sum id (map flow_txn_IDs) (snd (stop_tracking (Some 24) (Some 30) aged_branches))
     = Inr [[''t1'']]"
  by code_simp

section \<open>A transaction whose fee exceeds its amount\<close>

text \<open>
  C7. The claim is that a transaction with \<open>amt_in < 0\<close> is clamped (the negative
  \<open>amt_in\<close> added to the target's balance, \<open>amt_in\<close> set to 0, \<open>fee_scaling\<close> to 1), that
  a flow for the excess fee is emitted when the target is tracked, and that processing
  then continues. \<open>infer_withdraw\<close> puts the excess fee in the key \<open>src_fee\<close> of the
  inferred transaction, which the recipient convention does not read: that transaction
  has \<open>amt_out = amt_in = 0\<close>. For the deposit of 5 with a recipient fee of 7 into the
  tracked account B (excess fee 2, resolution limit 1/100):
  with the greedy heuristic \<open>Tracker.process\<close> ends in \<open>ZeroDivisionError\<close> before the
  clamp, the system and the transaction as they were and no flow yielded;
  with the well-mixed heuristic the clamp is made but no flow is yielded, and the tracker
  still holds 10 against a balance of 8;
  with no tracking \<open>Tracker.process\<close> ends in \<open>UnboundLocalError\<close>, again before the
  clamp.
\<close>

theorem process_negative_recipient_fee:
  "process (example_class Greedy None False) system_recipient over_fee False True
     = Some (system_recipient, over_fee, [], Some ZeroDivisionError)
   \<and> process_negative (example_class Well_mixed None False) system_recipient over_fee True
     = Some (set_account system_recipient ''B'' (example_account ''B'' 8 (Some deposit_10)),
             over_fee \<lparr> fee_scaling := Some 1, amt_in := 0 \<rparr>, [], None)
   \<and> process (example_class No_tracking None False) system_recipient over_fee False True
     = Some (system_recipient, over_fee, [], Some UnboundLocalError)"
  by code_simp

section \<open>The end-of-stream flush\<close>

lemma close_out_idem: "close_out (close_out a) = close_out a"
  by (simp add: close_out_def)

lemma remaining_funds_closed: "remaining_funds cls sys (close_out a) = Some []"
  by (simp add: remaining_funds_def close_out_def)

lemma track_remaining_accounts_closed:
  "track_remaining_accounts cls sys accts = Some (accts', flows)
     \<Longrightarrow> track_remaining_accounts cls sys' accts' = Some (accts', [])"
proof (induction accts arbitrary: accts' flows)
  case Nil
  then show ?case by simp
next
  case (Cons p accts)
  obtain i a where p: "p = (i, a)" by (cases p)
  from Cons.prems p obtain fl rest' fls where
    r: "track_remaining_accounts cls sys accts = Some (rest', fls)"
    and a: "accts' = (i, close_out a) # rest'"
    by (auto split: option.splits)
  from Cons.IH[OF r] have "track_remaining_accounts cls sys' rest' = Some (rest', [])" .
  with a show ?case
    by (simp add: remaining_funds_closed close_out_idem)
qed

text \<open>The first pass returns whenever the resolution limit is not negative.\<close>

lemma remaining_funds_returns:
  "0 \<le> resolution_limit cls \<Longrightarrow> \<exists>r. remaining_funds cls sys a = Some r"
  using infer_withdraw_returns[of cls]
  apply (auto simp: remaining_funds_def split: sum.splits option.splits prod.splits)
  by (metis option.distinct(1))+

lemma track_remaining_funds_returns:
  "0 \<le> resolution_limit cls \<Longrightarrow> \<exists>r. track_remaining_funds cls sys = Some r"
proof -
  assume h: "0 \<le> resolution_limit cls"
  have "\<exists>r. track_remaining_accounts cls sys accts = Some r" for accts
  proof (induction accts)
    case Nil
    then show ?case by simp
  next
    case (Cons p accts)
    obtain i a where p: "p = (i, a)" by (cases p)
    from remaining_funds_returns[OF h] obtain fl where "remaining_funds cls sys a = Some fl"
      by blast
    with Cons p show ?case by (auto split: prod.splits)
  qed
  then obtain r where "track_remaining_accounts cls sys (accounts sys) = Some r" by blast
  then show ?thesis by (cases r) (simp add: track_remaining_funds_def)
qed

text \<open>
  C8. The flush is idempotent: from the system a first pass of \<open>track_remaining_funds\<close>
  leaves, a second pass returns, yields no flow and leaves the system as it found it.
\<close>

theorem flush_idempotent:
  "track_remaining_funds cls sys = Some (sys', flows)
     \<Longrightarrow> track_remaining_funds cls sys' = Some (sys', [])"
proof -
  assume h: "track_remaining_funds cls sys = Some (sys', flows)"
  then obtain accts where
    r: "track_remaining_accounts cls sys (accounts sys) = Some (accts, flows)"
    and s: "sys' = sys \<lparr> accounts := accts \<rparr>"
    by (auto simp: track_remaining_funds_def split: option.splits)
  from track_remaining_accounts_closed[OF r, of sys']
  have "track_remaining_accounts cls sys' accts = Some (accts, [])" .
  with s show ?thesis
    by (simp add: track_remaining_funds_def)
qed

text \<open>On the system of accounts B and C, with the greedy heuristic, a cutoff of 24 hours
  and inference on, the first pass yields three flows and the second none.\<close>

theorem flush_idempotent_witness:
  "\<exists>sys' flows. track_remaining_funds (example_class Greedy (Some 24) True) system_B
                   = Some (sys', flows)
     \<and> length flows = 3
     \<and> track_remaining_funds (example_class Greedy (Some 24) True) sys' = Some (sys', [])"
proof -
  let ?cls = "example_class Greedy (Some 24) True"
  have "map_option (\<lambda>(s, fl). length fl) (track_remaining_funds ?cls system_B) = Some 3"
    by code_simp
  then obtain s fl where r: "track_remaining_funds ?cls system_B = Some (s, fl)"
    and l: "length fl = 3"
    by (cases "track_remaining_funds ?cls system_B") (auto split: prod.splits)
  from flush_idempotent[OF r] r l show ?thesis by blast
qed

end
